theory Spec2Isabelle
  imports Complex_Main "HOL-Library.Multiset"
begin

section \<open>Data model of \<open>gmaps/polyline.py\<close>\<close>

text \<open>
  A point of the \<open>data\<close> list is a Python dict with the two keys \<open>'lat'\<close> and
  \<open>'lng'\<close>; it is read only through \<open>point['lat']\<close> and \<open>point['lng']\<close>, so it is a
  record of two numbers. Coordinates are Python numbers that the code only compares
  (\<open>min\<close>, \<open>max\<close>, range checks) and never computes with; they are modelled as
  \<open>real\<close>, which orders finite floats and ints exactly as Python does. NaN and the
  infinities have no counterpart in the model.
\<close>

record latlng =
  lat :: real
  lng :: real

text \<open>
  The exceptions the widget can raise: traitlets' \<open>TraitError\<close> (a declared constraint
  of a trait is violated), \<open>geotraitlets.InvalidPointException\<close> (raised by
  \<open>_validate_data\<close>, carrying the point its message formats) and Python's
  \<open>ValueError\<close> (\<open>min\<close> or \<open>max\<close> of an empty iterable).
\<close>

datatype error =
    TraitError
  | InvalidPointException (offending: latlng)
  | ValueError

text \<open>The synchronised traits of class \<open>Polyline\<close> (lines 41 to 49).\<close>

record polyline =
  geodesic :: bool
  stroke_color :: string
  stroke_opacity :: real
  stroke_weight :: real
  data :: "latlng list"
  data_bounds :: "(real \<times> real) list"

section \<open>Declared trait constraints\<close>

text \<open>
  \<open>Float(min=lo, max=hi)\<close>: traitlets rejects a value below \<open>min\<close> or above \<open>max\<close>
  with a \<open>TraitError\<close> and returns every other value unchanged.
\<close>

definition Float_validate :: "real \<Rightarrow> real \<Rightarrow> real \<Rightarrow> error + real" where
  "Float_validate lo hi v = (if v < lo \<or> hi < v then Inl TraitError else Inr v)"

text \<open>
  \<open>List(minlen=n)\<close>: traitlets rejects a list shorter than \<open>minlen\<close> with a
  \<open>TraitError\<close>. No element trait is declared, so the elements are not checked here.
\<close>

definition List_validate :: "nat \<Rightarrow> 'a list \<Rightarrow> error + 'a list" where
  "List_validate minlen v = (if length v < minlen then Inl TraitError else Inr v)"

text \<open>
  Modelled from the spec: \<open>geotraitlets.ColorAlpha\<close>, the trait type of \<open>stroke_color\<close>,
  is not under src/. The spec calls the attribute a colour string that is pure
  configuration and is packaged verbatim, so the trait hands the string on unchanged.
\<close>

definition ColorAlpha_validate :: "string \<Rightarrow> error + string" where
  "ColorAlpha_validate c = Inr c"

text \<open>
  Modelled from the spec: \<open>geotraitlets.is_valid_point\<close> is not under src/. The spec
  (section 4.1) has every coordinate checked against \<open>-90 \<le> lat \<le> 90\<close> and
  \<open>-180 \<le> lng \<le> 180\<close>.
\<close>

definition is_valid_point :: "real \<times> real \<Rightarrow> bool" where
  "is_valid_point pt =
     (case pt of (latitude, longitude) \<Rightarrow>
        -90 \<le> latitude \<and> latitude \<le> 90 \<and> -180 \<le> longitude \<and> longitude \<le> 180)"

text \<open>
  Modelled from the spec: \<open>locations.locations_to_latlng\<close> is not under src/. The spec
  (section 4.3) has the construction helper normalise the raw (lat, lng) pairs into the
  coordinate representation, in order.
\<close>

definition locations_to_latlng :: "(real \<times> real) list \<Rightarrow> latlng list" where
  "locations_to_latlng points = map (\<lambda>(a, b). \<lparr>lat = a, lng = b\<rparr>) points"

section \<open>The validator and the observer of \<open>data\<close>\<close>

text \<open>
  The loop of \<open>_validate_data\<close> (lines 53 to 56): the first point that
  \<open>is_valid_point\<close> refuses raises, and later points are not looked at.
\<close>

fun validate_points :: "latlng list \<Rightarrow> error option" where
  "validate_points [] = None"
| "validate_points (point # rest) =
     (if \<not> is_valid_point (lat point, lng point)
      then Some (InvalidPointException point)
      else validate_points rest)"

text \<open>\<open>_validate_data\<close>: the loop, then \<open>return proposal["value"]\<close>.\<close>

definition validate_data :: "latlng list \<Rightarrow> error + latlng list" where
  "validate_data v = (case validate_points v of Some e \<Rightarrow> Inl e | None \<Rightarrow> Inr v)"

text \<open>
  Python's \<open>min\<close> and \<open>max\<close> of an iterable: \<open>ValueError\<close> when it is empty,
  otherwise a left-to-right scan that keeps the first extremal element.
\<close>

definition py_min :: "real list \<Rightarrow> error + real" where
  "py_min xs =
     (case xs of
        [] \<Rightarrow> Inl ValueError
      | x # rest \<Rightarrow> Inr (fold (\<lambda>y m. if y < m then y else m) rest x))"

definition py_max :: "real list \<Rightarrow> error + real" where
  "py_max xs =
     (case xs of
        [] \<Rightarrow> Inl ValueError
      | x # rest \<Rightarrow> Inr (fold (\<lambda>y m. if m < y then y else m) rest x))"

text \<open>
  \<open>_calc_bounds\<close> (lines 60 to 69), the observer of \<open>data\<close>: four scans of the new
  value, then the assignment of \<open>data_bounds\<close> (a \<open>List()\<close> trait with no
  constraint). An exception of a scan leaves the entity as the observer found it.
\<close>

definition calc_bounds :: "latlng list \<Rightarrow> polyline \<Rightarrow> error option \<times> polyline" where
  "calc_bounds new e =
     (case py_min (map lat new) of Inl err \<Rightarrow> (Some err, e) | Inr min_latitude \<Rightarrow>
      case py_min (map lng new) of Inl err \<Rightarrow> (Some err, e) | Inr min_longitude \<Rightarrow>
      case py_max (map lat new) of Inl err \<Rightarrow> (Some err, e) | Inr max_latitude \<Rightarrow>
      case py_max (map lng new) of Inl err \<Rightarrow> (Some err, e) | Inr max_longitude \<Rightarrow>
        (None, e\<lparr>data_bounds :=
                   [(min_latitude, min_longitude), (max_latitude, max_longitude)]\<rparr>))"

section \<open>Assignment and construction\<close>

text \<open>
  \<open>entity.data = v\<close>. traitlets first checks the declared constraint of the trait
  (\<open>List(minlen=2)\<close>), then runs the \<open>@validate("data")\<close> hook; an exception of either
  leaves the stored value alone. Otherwise the value is stored, and the
  \<open>@observe("data")\<close> handler runs unless the new value equals the old one. An
  exception of the handler reaches the caller after the value has been stored.
\<close>

definition set_data :: "latlng list \<Rightarrow> polyline \<Rightarrow> error option \<times> polyline" where
  "set_data v e =
     (case List_validate 2 v of Inl err \<Rightarrow> (Some err, e) | Inr v1 \<Rightarrow>
      case validate_data v1 of Inl err \<Rightarrow> (Some err, e) | Inr new \<Rightarrow>
        if data e = new then (None, e\<lparr>data := new\<rparr>)
        else calc_bounds new (e\<lparr>data := new\<rparr>))"

text \<open>\<open>entity.stroke_opacity = v\<close>, declared \<open>Float(min=0.0, max=1.0)\<close> (line 45).\<close>

definition set_stroke_opacity :: "real \<Rightarrow> polyline \<Rightarrow> error option \<times> polyline" where
  "set_stroke_opacity v e =
     (case Float_validate 0 1 v of
        Inl err \<Rightarrow> (Some err, e)
      | Inr v1 \<Rightarrow> (None, e\<lparr>stroke_opacity := v1\<rparr>))"

text \<open>\<open>entity.stroke_weight = v\<close>, declared \<open>Float(min=1.0, max=5.0)\<close> (line 46).\<close>

definition set_stroke_weight :: "real \<Rightarrow> polyline \<Rightarrow> error option \<times> polyline" where
  "set_stroke_weight v e =
     (case Float_validate 1 5 v of
        Inl err \<Rightarrow> (Some err, e)
      | Inr v1 \<Rightarrow> (None, e\<lparr>stroke_weight := v1\<rparr>))"

text \<open>
  \<open>Polyline(data=d, geodesic=g, stroke_color=c, stroke_opacity=opacity, stroke_weight=weight)\<close>.
  The constructor assigns the keyword arguments one after the other with notifications
  held back: each is checked against the declared constraint of its trait when it is
  assigned, the \<open>@validate\<close> hook of \<open>data\<close> runs once all are assigned, and the
  observer runs last. \<open>data_bounds\<close> starts as the empty list, the default of
  \<open>List()\<close>. An exception leaves the caller without an entity.
\<close>

definition Polyline_init ::
  "latlng list \<Rightarrow> bool \<Rightarrow> string \<Rightarrow> real \<Rightarrow> real \<Rightarrow> error + polyline" where
  "Polyline_init d g c opacity weight =
     (case List_validate 2 d of Inl err \<Rightarrow> Inl err | Inr d1 \<Rightarrow>
      case ColorAlpha_validate c of Inl err \<Rightarrow> Inl err | Inr c1 \<Rightarrow>
      case Float_validate 0 1 opacity of Inl err \<Rightarrow> Inl err | Inr o1 \<Rightarrow>
      case Float_validate 1 5 weight of Inl err \<Rightarrow> Inl err | Inr w1 \<Rightarrow>
      case validate_data d1 of Inl err \<Rightarrow> Inl err | Inr d2 \<Rightarrow>
      case calc_bounds d2
             \<lparr>geodesic = g, stroke_color = c1, stroke_opacity = o1,
              stroke_weight = w1, data = d2, data_bounds = []\<rparr> of
        (Some err, _) \<Rightarrow> Inl err
      | (None, e) \<Rightarrow> Inr e)"

text \<open>
  \<open>_polyline_options\<close> (lines 72 to 74) builds the keyword arguments and
  \<open>polyline_layer\<close> (lines 77 to 93) passes them to the constructor.
\<close>

definition polyline_options ::
  "(real \<times> real) list \<Rightarrow> bool \<Rightarrow> string \<Rightarrow> real \<Rightarrow> real
     \<Rightarrow> latlng list \<times> bool \<times> string \<times> real \<times> real" where
  "polyline_options points g c opacity weight =
     (locations_to_latlng points, g, c, opacity, weight)"

definition polyline_layer ::
  "(real \<times> real) list \<Rightarrow> bool \<Rightarrow> string \<Rightarrow> real \<Rightarrow> real \<Rightarrow> error + polyline" where
  "polyline_layer points g c opacity weight =
     (case polyline_options points g c opacity weight of
        (d, g1, c1, o1, w1) \<Rightarrow> Polyline_init d g1 c1 o1 w1)"

text \<open>
  \<open>polyline_layer(points)\<close> with the default values of its signature (line 77):
  \<open>geodesic=True, stroke_color="#FF0000", stroke_opacity=1.0, stroke_weight=2\<close>.
\<close>

definition polyline_layer_default :: "(real \<times> real) list \<Rightarrow> error + polyline" where
  "polyline_layer_default points = polyline_layer points True ''#FF0000'' 1.0 2"

text \<open>
  The entity invariant: \<open>data_bounds\<close> is what the observer derives from the stored
  \<open>data\<close>, that is, running the observer again changes nothing. The constructor
  establishes it and every assignment above keeps it (lemmas \<open>Polyline_init_in_sync\<close>,
  \<open>set_data_in_sync\<close>, \<open>set_stroke_opacity_in_sync\<close>, \<open>set_stroke_weight_in_sync\<close>),
  so it holds of every entity that the constructor and these assignments produce.
\<close>

definition bounds_in_sync :: "polyline \<Rightarrow> bool" where
  "bounds_in_sync e = (calc_bounds (data e) e = (None, e))"

section \<open>The scans, the validator and the invariant\<close>

lemma fold_min_eq:
  "fold (\<lambda>y m. if y < m then y else m) xs (x::real) = Min (insert x (set xs))"
proof (induction xs arbitrary: x)
  case Nil
  show ?case by simp
next
  case (Cons a xs)
  have "Min (insert (if a < x then a else x) (set xs)) = Min (insert x (insert a (set xs)))"
    by (cases "set xs = {}") (auto simp: min_def)
  with Cons show ?case by simp
qed

lemma fold_max_eq:
  "fold (\<lambda>y m. if m < y then y else m) xs (x::real) = Max (insert x (set xs))"
proof (induction xs arbitrary: x)
  case Nil
  show ?case by simp
next
  case (Cons a xs)
  have "Max (insert (if x < a then a else x) (set xs)) = Max (insert x (insert a (set xs)))"
    by (cases "set xs = {}") (auto simp: max_def)
  with Cons show ?case by simp
qed

lemma py_min_eq: "xs \<noteq> [] \<Longrightarrow> py_min xs = Inr (Min (set xs))"
  by (cases xs) (simp_all add: py_min_def fold_min_eq)

lemma py_max_eq: "xs \<noteq> [] \<Longrightarrow> py_max xs = Inr (Max (set xs))"
  by (cases xs) (simp_all add: py_max_def fold_max_eq)

lemma py_min_empty: "py_min [] = Inl ValueError"
  by (simp add: py_min_def)

lemma calc_bounds_eq:
  "new \<noteq> [] \<Longrightarrow>
   calc_bounds new e =
     (None, e\<lparr>data_bounds := [(Min (lat ` set new), Min (lng ` set new)),
                             (Max (lat ` set new), Max (lng ` set new))]\<rparr>)"
  by (simp add: calc_bounds_def py_min_eq py_max_eq)

lemma calc_bounds_empty: "calc_bounds [] e = (Some ValueError, e)"
  by (simp add: calc_bounds_def py_min_empty)

lemma bounds_in_sync_iff:
  "bounds_in_sync e \<longleftrightarrow>
     data e \<noteq> [] \<and>
     data_bounds e = [(Min (lat ` set (data e)), Min (lng ` set (data e))),
                      (Max (lat ` set (data e)), Max (lng ` set (data e)))]"
proof (cases "data e = []")
  case True
  then show ?thesis by (simp add: bounds_in_sync_def calc_bounds_empty)
next
  case False
  have "(e\<lparr>data_bounds := b\<rparr> = e) = (data_bounds e = b)" for b
    by (cases e) auto
  with False show ?thesis by (simp add: bounds_in_sync_def calc_bounds_eq)
qed

lemma validate_points_None_iff:
  "validate_points ps = None \<longleftrightarrow> (\<forall>p\<in>set ps. is_valid_point (lat p, lng p))"
  by (induction ps) auto

lemma validate_points_Some:
  "validate_points ps = Some err \<Longrightarrow>
     \<exists>q\<in>set ps. err = InvalidPointException q \<and> \<not> is_valid_point (lat q, lng q)"
  by (induction ps) (auto split: if_splits)

lemma validate_data_valid:
  "\<forall>p\<in>set ps. is_valid_point (lat p, lng p) \<Longrightarrow> validate_data ps = Inr ps"
  by (simp add: validate_data_def validate_points_None_iff[THEN iffD2])

lemma validate_data_Inr: "validate_data ps = Inr qs \<Longrightarrow> qs = ps \<and> (\<forall>p\<in>set ps. is_valid_point (lat p, lng p))"
  by (auto simp: validate_data_def validate_points_None_iff split: option.splits)

lemma validate_data_invalid:
  "\<exists>p\<in>set ps. \<not> is_valid_point (lat p, lng p) \<Longrightarrow>
     \<exists>q\<in>set ps. \<not> is_valid_point (lat q, lng q) \<and> validate_data ps = Inl (InvalidPointException q)"
proof -
  assume a: "\<exists>p\<in>set ps. \<not> is_valid_point (lat p, lng p)"
  then have "validate_points ps \<noteq> None" by (simp add: validate_points_None_iff)
  then obtain err where e: "validate_points ps = Some err" by auto
  from validate_points_Some[OF e] e show ?thesis by (auto simp: validate_data_def)
qed

lemma set_data_accepts:
  assumes "2 \<le> length P" and "\<forall>p\<in>set P. is_valid_point (lat p, lng p)" and "bounds_in_sync e"
  shows "set_data P e =
           (None, e\<lparr>data := P,
                    data_bounds := [(Min (lat ` set P), Min (lng ` set P)),
                                    (Max (lat ` set P), Max (lng ` set P))]\<rparr>)"
proof -
  from assms(1) have ne: "P \<noteq> []" by auto
  show ?thesis
  proof (cases "data e = P")
    case True
    with assms(3) have "e\<lparr>data := P,
                    data_bounds := [(Min (lat ` set P), Min (lng ` set P)),
                                    (Max (lat ` set P), Max (lng ` set P))]\<rparr> = e"
      by (cases e) (auto simp: bounds_in_sync_iff)
    with True assms(1,2) show ?thesis
      by (simp add: set_data_def List_validate_def validate_data_valid)
  next
    case False
    with assms(1,2) ne show ?thesis
      by (simp add: set_data_def List_validate_def validate_data_valid calc_bounds_eq)
  qed
qed

lemma Polyline_init_accepts:
  assumes "2 \<le> length P" and "\<forall>p\<in>set P. is_valid_point (lat p, lng p)"
    and "0 \<le> opacity" "opacity \<le> 1" "1 \<le> weight" "weight \<le> 5"
  shows "Polyline_init P g c opacity weight =
           Inr \<lparr>geodesic = g, stroke_color = c, stroke_opacity = opacity,
                stroke_weight = weight, data = P,
                data_bounds = [(Min (lat ` set P), Min (lng ` set P)),
                               (Max (lat ` set P), Max (lng ` set P))]\<rparr>"
proof -
  from assms(1) have ne: "P \<noteq> []" by auto
  with assms show ?thesis
    by (simp add: Polyline_init_def List_validate_def ColorAlpha_validate_def
        Float_validate_def validate_data_valid calc_bounds_eq)
qed

lemma Polyline_init_Inr:
  assumes "Polyline_init P g c opacity weight = Inr e"
  shows "2 \<le> length P \<and> (\<forall>p\<in>set P. is_valid_point (lat p, lng p)) \<and>
         e = \<lparr>geodesic = g, stroke_color = c, stroke_opacity = opacity,
                stroke_weight = weight, data = P,
                data_bounds = [(Min (lat ` set P), Min (lng ` set P)),
                               (Max (lat ` set P), Max (lng ` set P))]\<rparr>"
proof -
  from assms have len: "2 \<le> length P"
    by (auto simp: Polyline_init_def List_validate_def split: if_splits)
  then have ne: "P \<noteq> []" by auto
  from assms len have st: "0 \<le> opacity \<and> opacity \<le> 1 \<and> 1 \<le> weight \<and> weight \<le> 5"
    by (auto simp: Polyline_init_def List_validate_def ColorAlpha_validate_def
        Float_validate_def split: if_splits)
  from assms len st obtain d2 where v: "validate_data P = Inr d2"
    by (cases "validate_data P")
       (auto simp: Polyline_init_def List_validate_def ColorAlpha_validate_def
        Float_validate_def)
  from validate_data_Inr[OF v] have val: "\<forall>p\<in>set P. is_valid_point (lat p, lng p)" by simp
  from Polyline_init_accepts[OF len val, of opacity weight g c] st assms
  show ?thesis using len val by simp
qed

lemma set_data_None:
  assumes "set_data P e = (None, e')"
  shows "2 \<le> length P \<and> (\<forall>p\<in>set P. is_valid_point (lat p, lng p))"
proof -
  from assms have len: "2 \<le> length P"
    by (auto simp: set_data_def List_validate_def split: if_splits)
  from assms len obtain d2 where v: "validate_data P = Inr d2"
    by (cases "validate_data P") (auto simp: set_data_def List_validate_def)
  from validate_data_Inr[OF v] len show ?thesis by simp
qed

lemma Polyline_init_in_sync: "Polyline_init P g c opacity weight = Inr e \<Longrightarrow> bounds_in_sync e"
  by (drule Polyline_init_Inr) (auto simp: bounds_in_sync_iff)

lemma set_data_in_sync: 
  assumes "bounds_in_sync e" shows "bounds_in_sync (snd (set_data v e))"
proof (cases "2 \<le> length v \<and> (\<forall>p\<in>set v. is_valid_point (lat p, lng p))")
  case True
  then have "v \<noteq> []" by auto
  with set_data_accepts[of v e] True assms show ?thesis
    by (simp add: bounds_in_sync_iff)
next
  case False
  then consider "length v < 2" | "2 \<le> length v" "\<exists>p\<in>set v. \<not> is_valid_point (lat p, lng p)"
    by fastforce
  then show ?thesis
  proof cases
    case 1
    with assms show ?thesis by (simp add: set_data_def List_validate_def)
  next
    case 2
    from validate_data_invalid[OF 2(2)] 2(1) assms show ?thesis
      by (auto simp: set_data_def List_validate_def)
  qed
qed

lemma set_stroke_opacity_in_sync:
  "bounds_in_sync e \<Longrightarrow> bounds_in_sync (snd (set_stroke_opacity v e))"
  by (simp add: set_stroke_opacity_def Float_validate_def bounds_in_sync_iff)

lemma set_stroke_weight_in_sync:
  "bounds_in_sync e \<Longrightarrow> bounds_in_sync (snd (set_stroke_weight v e))"
  by (simp add: set_stroke_weight_def Float_validate_def bounds_in_sync_iff)

lemma in_range_valid:
  "- 90 \<le> lat p \<and> lat p \<le> 90 \<and> - 180 \<le> lng p \<and> lng p \<le> 180 \<longleftrightarrow> is_valid_point (lat p, lng p)"
  by (simp add: is_valid_point_def)

lemma out_of_range_invalid:
  "90 < lat p \<or> lat p < - 90 \<or> 180 < lng p \<or> lng p < - 180 \<longleftrightarrow> \<not> is_valid_point (lat p, lng p)"
  by (auto simp: is_valid_point_def)

section \<open>The claims\<close>

text \<open>
  In the witnesses below the entity before an assignment is the one that
  \<open>Polyline(data=[{0, 0}, {10, 20}])\<close> with the default style leaves behind.
\<close>

subsection \<open>C1: bounds of a valid sequence\<close>

text \<open>
  Claim C1. For every valid point sequence \<open>P\<close> (every latitude in [-90, 90], every
  longitude in [-180, 180], at least two points) committed to \<open>data\<close>,
  \<open>data_bounds\<close> is the two-element list [(min latitude, min longitude),
  (max latitude, max longitude)], each extremum taken on its own axis over all points
  of \<open>P\<close>. This holds both for an assignment to an entity and for construction
  (with style arguments inside their declared ranges); the assignment succeeds and
  commits exactly \<open>P\<close>.
\<close>

theorem data_bounds_of_valid_sequence:
  assumes "\<forall>p\<in>set P. - 90 \<le> lat p \<and> lat p \<le> 90 \<and> - 180 \<le> lng p \<and> lng p \<le> 180"
    and "2 \<le> length P"
    and "bounds_in_sync e"
  shows "set_data P e =
           (None, e\<lparr>data := P,
                    data_bounds := [(Min (lat ` set P), Min (lng ` set P)),
                                    (Max (lat ` set P), Max (lng ` set P))]\<rparr>) \<and>
         (0 \<le> opacity \<and> opacity \<le> 1 \<and> 1 \<le> weight \<and> weight \<le> 5 \<longrightarrow>
          Polyline_init P g c opacity weight =
            Inr \<lparr>geodesic = g, stroke_color = c, stroke_opacity = opacity,
                 stroke_weight = weight, data = P,
                 data_bounds = [(Min (lat ` set P), Min (lng ` set P)),
                                (Max (lat ` set P), Max (lng ` set P))]\<rparr>)"
proof -
  from assms(1) have v: "\<forall>p\<in>set P. is_valid_point (lat p, lng p)"
    by (simp add: in_range_valid)
  from set_data_accepts[OF assms(2) v assms(3)] Polyline_init_accepts[OF assms(2) v]
  show ?thesis by simp
qed

theorem data_bounds_of_valid_sequence_witness:
  "set_data [\<lparr>lat = 1, lng = 8\<rparr>, \<lparr>lat = 3, lng = 2\<rparr>, \<lparr>lat = 2, lng = 5\<rparr>]
     \<lparr>geodesic = True, stroke_color = ''#FF0000'', stroke_opacity = 1, stroke_weight = 2,
      data = [\<lparr>lat = 0, lng = 0\<rparr>, \<lparr>lat = 10, lng = 20\<rparr>],
      data_bounds = [(0, 0), (10, 20)]\<rparr> =
   (None,
     \<lparr>geodesic = True, stroke_color = ''#FF0000'', stroke_opacity = 1, stroke_weight = 2,
      data = [\<lparr>lat = 1, lng = 8\<rparr>, \<lparr>lat = 3, lng = 2\<rparr>, \<lparr>lat = 2, lng = 5\<rparr>],
      data_bounds = [(1, 2), (3, 8)]\<rparr>) \<and>
   Polyline_init [\<lparr>lat = 1, lng = 8\<rparr>, \<lparr>lat = 3, lng = 2\<rparr>, \<lparr>lat = 2, lng = 5\<rparr>]
     False ''blue'' (1 / 2) 3 =
   Inr \<lparr>geodesic = False, stroke_color = ''blue'', stroke_opacity = 1 / 2, stroke_weight = 3,
      data = [\<lparr>lat = 1, lng = 8\<rparr>, \<lparr>lat = 3, lng = 2\<rparr>, \<lparr>lat = 2, lng = 5\<rparr>],
      data_bounds = [(1, 2), (3, 8)]\<rparr>"
  using data_bounds_of_valid_sequence
    [of "[\<lparr>lat = 1, lng = 8\<rparr>, \<lparr>lat = 3, lng = 2\<rparr>, \<lparr>lat = 2, lng = 5\<rparr>]"
        "\<lparr>geodesic = True, stroke_color = ''#FF0000'', stroke_opacity = 1, stroke_weight = 2,
          data = [\<lparr>lat = 0, lng = 0\<rparr>, \<lparr>lat = 10, lng = 20\<rparr>],
          data_bounds = [(0, 0), (10, 20)]\<rparr>"
        "1 / 2" 3 False "''blue''"]
  by (simp add: bounds_in_sync_def calc_bounds_def py_min_def py_max_def)

subsection \<open>C2: a sequence with an out-of-range coordinate\<close>

text \<open>
  Claim C2. For every candidate point sequence \<open>P\<close> (a point sequence has at least two
  points) that contains a coordinate with \<open>lat > 90\<close>, \<open>lat < -90\<close>, \<open>lng > 180\<close> or
  \<open>lng < -180\<close>, the assignment to \<open>data\<close> fails with an
  \<open>InvalidPointException\<close> that carries an offending point of \<open>P\<close>, and the entity
  is left exactly as it was: neither \<open>data\<close> nor \<open>data_bounds\<close> changes.
  Construction from \<open>P\<close> (with style arguments inside their declared ranges) fails
  with the same exception.
\<close>

theorem invalid_point_rejected:
  assumes "2 \<le> length P"
    and "\<exists>p\<in>set P. 90 < lat p \<or> lat p < - 90 \<or> 180 < lng p \<or> lng p < - 180"
  shows "\<exists>q\<in>set P.
           (90 < lat q \<or> lat q < - 90 \<or> 180 < lng q \<or> lng q < - 180) \<and>
           set_data P e = (Some (InvalidPointException q), e) \<and>
           (0 \<le> opacity \<and> opacity \<le> 1 \<and> 1 \<le> weight \<and> weight \<le> 5 \<longrightarrow>
            Polyline_init P g c opacity weight = Inl (InvalidPointException q))"
proof -
  from assms(2) have "\<exists>p\<in>set P. \<not> is_valid_point (lat p, lng p)"
    by (simp add: out_of_range_invalid)
  from validate_data_invalid[OF this] obtain q where
    q: "q \<in> set P" "\<not> is_valid_point (lat q, lng q)"
       "validate_data P = Inl (InvalidPointException q)"
    by blast
  from q(2) have "90 < lat q \<or> lat q < - 90 \<or> 180 < lng q \<or> lng q < - 180"
    by (simp add: out_of_range_invalid)
  moreover from assms(1) q(3) have "set_data P e = (Some (InvalidPointException q), e)"
    by (simp add: set_data_def List_validate_def)
  moreover from assms(1) q(3)
  have "0 \<le> opacity \<and> opacity \<le> 1 \<and> 1 \<le> weight \<and> weight \<le> 5 \<longrightarrow>
        Polyline_init P g c opacity weight = Inl (InvalidPointException q)"
    by (auto simp: Polyline_init_def List_validate_def ColorAlpha_validate_def
          Float_validate_def)
  ultimately show ?thesis using q(1) by blast
qed

theorem invalid_point_rejected_witness:
  "set_data [\<lparr>lat = 10, lng = 20\<rparr>, \<lparr>lat = 91, lng = 0\<rparr>, \<lparr>lat = 0, lng = 200\<rparr>]
     \<lparr>geodesic = True, stroke_color = ''#FF0000'', stroke_opacity = 1, stroke_weight = 2,
      data = [\<lparr>lat = 0, lng = 0\<rparr>, \<lparr>lat = 10, lng = 20\<rparr>],
      data_bounds = [(0, 0), (10, 20)]\<rparr> =
   (Some (InvalidPointException \<lparr>lat = 91, lng = 0\<rparr>),
     \<lparr>geodesic = True, stroke_color = ''#FF0000'', stroke_opacity = 1, stroke_weight = 2,
      data = [\<lparr>lat = 0, lng = 0\<rparr>, \<lparr>lat = 10, lng = 20\<rparr>],
      data_bounds = [(0, 0), (10, 20)]\<rparr>) \<and>
   Polyline_init [\<lparr>lat = 10, lng = 20\<rparr>, \<lparr>lat = 91, lng = 0\<rparr>, \<lparr>lat = 0, lng = 200\<rparr>]
     True ''#FF0000'' 1 2 = Inl (InvalidPointException \<lparr>lat = 91, lng = 0\<rparr>)"
  using invalid_point_rejected
    [of "[\<lparr>lat = 10, lng = 20\<rparr>, \<lparr>lat = 91, lng = 0\<rparr>, \<lparr>lat = 0, lng = 200\<rparr>]"
        "\<lparr>geodesic = True, stroke_color = ''#FF0000'', stroke_opacity = 1, stroke_weight = 2,
          data = [\<lparr>lat = 0, lng = 0\<rparr>, \<lparr>lat = 10, lng = 20\<rparr>],
          data_bounds = [(0, 0), (10, 20)]\<rparr>"
        1 2 True "''#FF0000''"]
  by (simp add: set_data_def Polyline_init_def List_validate_def ColorAlpha_validate_def
      Float_validate_def validate_data_def is_valid_point_def)

subsection \<open>C3: a sequence of length 1\<close>

text \<open>
  Claim C3. Assigning \<open>data\<close> a sequence of length 1 is rejected whether or not its
  single coordinate is in range, because \<open>data\<close> is declared with a minimum length
  of 2: the assignment fails with a \<open>TraitError\<close> and leaves the entity as it was,
  and construction from such a sequence fails as well.
\<close>

theorem single_point_rejected:
  assumes "length P = 1"
  shows "set_data P e = (Some TraitError, e) \<and>
         Polyline_init P g c opacity weight = Inl TraitError"
  using assms by (simp add: set_data_def Polyline_init_def List_validate_def)

theorem single_point_rejected_witness:
  "set_data [\<lparr>lat = 10, lng = 20\<rparr>]
     \<lparr>geodesic = True, stroke_color = ''#FF0000'', stroke_opacity = 1, stroke_weight = 2,
      data = [\<lparr>lat = 0, lng = 0\<rparr>, \<lparr>lat = 10, lng = 20\<rparr>],
      data_bounds = [(0, 0), (10, 20)]\<rparr> =
   (Some TraitError,
     \<lparr>geodesic = True, stroke_color = ''#FF0000'', stroke_opacity = 1, stroke_weight = 2,
      data = [\<lparr>lat = 0, lng = 0\<rparr>, \<lparr>lat = 10, lng = 20\<rparr>],
      data_bounds = [(0, 0), (10, 20)]\<rparr>) \<and>
   Polyline_init [\<lparr>lat = 10, lng = 20\<rparr>] True ''#FF0000'' 1 2 = Inl TraitError"
  using single_point_rejected [of "[\<lparr>lat = 10, lng = 20\<rparr>]"]
  by simp

subsection \<open>C4: the range bounds are inclusive\<close>

text \<open>
  Claim C4. The coordinate ranges are closed: for every sequence of at least two points
  in which each latitude is 90, -90 or strictly between them and each longitude is 180,
  -180 or strictly between them, the assignment to \<open>data\<close> is accepted without
  error and commits the sequence, and the construction helper accepts it too.
\<close>

theorem boundary_values_accepted:
  assumes "2 \<le> length P"
    and "\<forall>p\<in>set P.
           (lat p = 90 \<or> lat p = - 90 \<or> (- 90 < lat p \<and> lat p < 90)) \<and>
           (lng p = 180 \<or> lng p = - 180 \<or> (- 180 < lng p \<and> lng p < 180))"
  shows "fst (set_data P e) = None \<and> data (snd (set_data P e)) = P \<and>
         (\<exists>e'. polyline_layer_default (map (\<lambda>p. (lat p, lng p)) P) = Inr e' \<and> data e' = P)"
proof -
  from assms(2) have v: "\<forall>p\<in>set P. is_valid_point (lat p, lng p)"
    by (auto simp: is_valid_point_def)
  from assms(1) have ne: "P \<noteq> []" by auto
  have "fst (set_data P e) = None \<and> data (snd (set_data P e)) = P"
    using assms(1) v ne
    by (simp add: set_data_def List_validate_def validate_data_valid calc_bounds_eq)
  moreover have "locations_to_latlng (map (\<lambda>p. (lat p, lng p)) P) = P"
    by (simp add: locations_to_latlng_def comp_def map_idI)
  then have "polyline_layer_default (map (\<lambda>p. (lat p, lng p)) P) =
               Polyline_init P True ''#FF0000'' 1 2"
    by (simp add: polyline_layer_default_def polyline_layer_def polyline_options_def)
  with Polyline_init_accepts[OF assms(1) v, of 1 2 True "''#FF0000''"]
  have "\<exists>e'. polyline_layer_default (map (\<lambda>p. (lat p, lng p)) P) = Inr e' \<and> data e' = P"
    by simp
  ultimately show ?thesis by blast
qed

theorem boundary_values_accepted_witness:
  "fst (set_data [\<lparr>lat = 90, lng = 180\<rparr>, \<lparr>lat = - 90, lng = - 180\<rparr>, \<lparr>lat = 0, lng = 0\<rparr>]
     \<lparr>geodesic = True, stroke_color = ''#FF0000'', stroke_opacity = 1, stroke_weight = 2,
      data = [\<lparr>lat = 0, lng = 0\<rparr>, \<lparr>lat = 10, lng = 20\<rparr>],
      data_bounds = [(0, 0), (10, 20)]\<rparr>) = None \<and>
   data (snd (set_data [\<lparr>lat = 90, lng = 180\<rparr>, \<lparr>lat = - 90, lng = - 180\<rparr>, \<lparr>lat = 0, lng = 0\<rparr>]
     \<lparr>geodesic = True, stroke_color = ''#FF0000'', stroke_opacity = 1, stroke_weight = 2,
      data = [\<lparr>lat = 0, lng = 0\<rparr>, \<lparr>lat = 10, lng = 20\<rparr>],
      data_bounds = [(0, 0), (10, 20)]\<rparr>)) =
     [\<lparr>lat = 90, lng = 180\<rparr>, \<lparr>lat = - 90, lng = - 180\<rparr>, \<lparr>lat = 0, lng = 0\<rparr>]"
  using boundary_values_accepted
    [of "[\<lparr>lat = 90, lng = 180\<rparr>, \<lparr>lat = - 90, lng = - 180\<rparr>, \<lparr>lat = 0, lng = 0\<rparr>]"
        "\<lparr>geodesic = True, stroke_color = ''#FF0000'', stroke_opacity = 1, stroke_weight = 2,
          data = [\<lparr>lat = 0, lng = 0\<rparr>, \<lparr>lat = 10, lng = 20\<rparr>],
          data_bounds = [(0, 0), (10, 20)]\<rparr>"]
  by simp

subsection \<open>C5: re-assignment recomputes the bounds\<close>

text \<open>
  Claim C5. For every entity with a committed sequence and every new valid sequence,
  re-assigning \<open>data\<close> succeeds and leaves \<open>data_bounds\<close> equal to the per-axis
  minima and maxima of the new sequence alone: the result does not depend on the
  sequence committed before, so two entities with different histories end with the
  same bounds.
\<close>

theorem reassignment_recomputes_bounds:
  assumes "bounds_in_sync e" and "bounds_in_sync e2"
    and "2 \<le> length new"
    and "\<forall>p\<in>set new. - 90 \<le> lat p \<and> lat p \<le> 90 \<and> - 180 \<le> lng p \<and> lng p \<le> 180"
  shows "fst (set_data new e) = None \<and>
         data (snd (set_data new e)) = new \<and>
         data_bounds (snd (set_data new e)) =
           [(Min (lat ` set new), Min (lng ` set new)),
            (Max (lat ` set new), Max (lng ` set new))] \<and>
         data_bounds (snd (set_data new e2)) = data_bounds (snd (set_data new e))"
proof -
  from assms(4) have v: "\<forall>p\<in>set new. is_valid_point (lat p, lng p)"
    by (simp add: in_range_valid)
  from set_data_accepts[OF assms(3) v assms(1)] set_data_accepts[OF assms(3) v assms(2)]
  show ?thesis by simp
qed

theorem reassignment_recomputes_bounds_witness:
  "fst (set_data [\<lparr>lat = 50, lng = 60\<rparr>, \<lparr>lat = 40, lng = 70\<rparr>]
     \<lparr>geodesic = True, stroke_color = ''#FF0000'', stroke_opacity = 1, stroke_weight = 2,
      data = [\<lparr>lat = 0, lng = 0\<rparr>, \<lparr>lat = 10, lng = 20\<rparr>],
      data_bounds = [(0, 0), (10, 20)]\<rparr>) = None \<and>
   data_bounds (snd (set_data [\<lparr>lat = 50, lng = 60\<rparr>, \<lparr>lat = 40, lng = 70\<rparr>]
     \<lparr>geodesic = True, stroke_color = ''#FF0000'', stroke_opacity = 1, stroke_weight = 2,
      data = [\<lparr>lat = 0, lng = 0\<rparr>, \<lparr>lat = 10, lng = 20\<rparr>],
      data_bounds = [(0, 0), (10, 20)]\<rparr>)) = [(40, 60), (50, 70)] \<and>
   data_bounds (snd (set_data [\<lparr>lat = 50, lng = 60\<rparr>, \<lparr>lat = 40, lng = 70\<rparr>]
     \<lparr>geodesic = False, stroke_color = ''blue'', stroke_opacity = 1, stroke_weight = 5,
      data = [\<lparr>lat = - 80, lng = 170\<rparr>, \<lparr>lat = 80, lng = - 170\<rparr>],
      data_bounds = [(- 80, - 170), (80, 170)]\<rparr>)) = [(40, 60), (50, 70)]"
  using reassignment_recomputes_bounds
    [of "\<lparr>geodesic = True, stroke_color = ''#FF0000'', stroke_opacity = 1, stroke_weight = 2,
          data = [\<lparr>lat = 0, lng = 0\<rparr>, \<lparr>lat = 10, lng = 20\<rparr>],
          data_bounds = [(0, 0), (10, 20)]\<rparr>"
        "\<lparr>geodesic = False, stroke_color = ''blue'', stroke_opacity = 1, stroke_weight = 5,
          data = [\<lparr>lat = - 80, lng = 170\<rparr>, \<lparr>lat = 80, lng = - 170\<rparr>],
          data_bounds = [(- 80, - 170), (80, 170)]\<rparr>"
        "[\<lparr>lat = 50, lng = 60\<rparr>, \<lparr>lat = 40, lng = 70\<rparr>]"]
  by (simp add: bounds_in_sync_def calc_bounds_def py_min_def py_max_def)

subsection \<open>C6: the default style of the construction helper\<close>

text \<open>
  Claim C6. \<open>polyline_layer([(46.4, 6.9), (46.9, 8.0)])\<close> with no explicit style
  argument returns an entity with \<open>geodesic = True\<close>, \<open>stroke_color = "#FF0000"\<close>,
  \<open>stroke_opacity = 1.0\<close> and \<open>stroke_weight = 2\<close>.
\<close>

theorem polyline_layer_defaults:
  "polyline_layer_default [(46.4, 6.9), (46.9, 8.0)] =
     Inr \<lparr>geodesic = True, stroke_color = ''#FF0000'', stroke_opacity = 1.0,
          stroke_weight = 2,
          data = [\<lparr>lat = 46.4, lng = 6.9\<rparr>, \<lparr>lat = 46.9, lng = 8.0\<rparr>],
          data_bounds = [(46.4, 6.9), (46.9, 8.0)]\<rparr>"
  by (simp add: polyline_layer_default_def polyline_layer_def polyline_options_def
      locations_to_latlng_def Polyline_init_def List_validate_def ColorAlpha_validate_def
      Float_validate_def validate_data_def is_valid_point_def calc_bounds_def py_min_def
      py_max_def)

subsection \<open>C7: the example of the class docstring\<close>

text \<open>
  Claim C7. For the points [(48.85341, 2.3488), (50.85045, 4.34878),
  (52.37403, 4.88969)] construction succeeds and \<open>data_bounds\<close> of the entity is
  [(48.85341, 2.3488), (52.37403, 4.88969)].
\<close>

theorem docstring_example_bounds:
  "polyline_layer_default
     [(48.85341, 2.3488), (50.85045, 4.34878), (52.37403, 4.88969)] =
     Inr \<lparr>geodesic = True, stroke_color = ''#FF0000'', stroke_opacity = 1.0,
          stroke_weight = 2,
          data = [\<lparr>lat = 48.85341, lng = 2.3488\<rparr>, \<lparr>lat = 50.85045, lng = 4.34878\<rparr>,
                  \<lparr>lat = 52.37403, lng = 4.88969\<rparr>],
          data_bounds = [(48.85341, 2.3488), (52.37403, 4.88969)]\<rparr>"
  by (simp add: polyline_layer_default_def polyline_layer_def polyline_options_def
      locations_to_latlng_def Polyline_init_def List_validate_def ColorAlpha_validate_def
      Float_validate_def validate_data_def is_valid_point_def calc_bounds_def py_min_def
      py_max_def)

subsection \<open>C8: the declared ranges of opacity and weight\<close>

text \<open>
  Claim C8. Assigning \<open>stroke_opacity\<close> a value outside [0, 1] or \<open>stroke_weight\<close>
  a value outside [1, 5] fails at once with a \<open>TraitError\<close> (the value is outside
  the declared range) and leaves the entity, and so the committed value, unchanged;
  the constructor refuses such a value in the same way. A value inside the declared
  range is accepted and becomes the committed value.
\<close>

theorem style_ranges_enforced:
  "(v < 0 \<or> 1 < v \<longrightarrow>
      set_stroke_opacity v e = (Some TraitError, e) \<and>
      Polyline_init d g c v weight = Inl TraitError) \<and>
   (0 \<le> v \<and> v \<le> 1 \<longrightarrow> set_stroke_opacity v e = (None, e\<lparr>stroke_opacity := v\<rparr>)) \<and>
   (u < 1 \<or> 5 < u \<longrightarrow>
      set_stroke_weight u e = (Some TraitError, e) \<and>
      Polyline_init d g c opacity u = Inl TraitError) \<and>
   (1 \<le> u \<and> u \<le> 5 \<longrightarrow> set_stroke_weight u e = (None, e\<lparr>stroke_weight := u\<rparr>))"
  by (auto simp: set_stroke_opacity_def set_stroke_weight_def Float_validate_def
      Polyline_init_def List_validate_def ColorAlpha_validate_def)

theorem style_ranges_enforced_witness:
  "set_stroke_opacity (3 / 2)
     \<lparr>geodesic = True, stroke_color = ''#FF0000'', stroke_opacity = 1, stroke_weight = 2,
      data = [\<lparr>lat = 0, lng = 0\<rparr>, \<lparr>lat = 10, lng = 20\<rparr>],
      data_bounds = [(0, 0), (10, 20)]\<rparr> =
   (Some TraitError,
     \<lparr>geodesic = True, stroke_color = ''#FF0000'', stroke_opacity = 1, stroke_weight = 2,
      data = [\<lparr>lat = 0, lng = 0\<rparr>, \<lparr>lat = 10, lng = 20\<rparr>],
      data_bounds = [(0, 0), (10, 20)]\<rparr>) \<and>
   set_stroke_opacity (1 / 2)
     \<lparr>geodesic = True, stroke_color = ''#FF0000'', stroke_opacity = 1, stroke_weight = 2,
      data = [\<lparr>lat = 0, lng = 0\<rparr>, \<lparr>lat = 10, lng = 20\<rparr>],
      data_bounds = [(0, 0), (10, 20)]\<rparr> =
   (None,
     \<lparr>geodesic = True, stroke_color = ''#FF0000'', stroke_opacity = 1 / 2, stroke_weight = 2,
      data = [\<lparr>lat = 0, lng = 0\<rparr>, \<lparr>lat = 10, lng = 20\<rparr>],
      data_bounds = [(0, 0), (10, 20)]\<rparr>) \<and>
   set_stroke_weight 7
     \<lparr>geodesic = True, stroke_color = ''#FF0000'', stroke_opacity = 1, stroke_weight = 2,
      data = [\<lparr>lat = 0, lng = 0\<rparr>, \<lparr>lat = 10, lng = 20\<rparr>],
      data_bounds = [(0, 0), (10, 20)]\<rparr> =
   (Some TraitError,
     \<lparr>geodesic = True, stroke_color = ''#FF0000'', stroke_opacity = 1, stroke_weight = 2,
      data = [\<lparr>lat = 0, lng = 0\<rparr>, \<lparr>lat = 10, lng = 20\<rparr>],
      data_bounds = [(0, 0), (10, 20)]\<rparr>) \<and>
   set_stroke_weight 3
     \<lparr>geodesic = True, stroke_color = ''#FF0000'', stroke_opacity = 1, stroke_weight = 2,
      data = [\<lparr>lat = 0, lng = 0\<rparr>, \<lparr>lat = 10, lng = 20\<rparr>],
      data_bounds = [(0, 0), (10, 20)]\<rparr> =
   (None,
     \<lparr>geodesic = True, stroke_color = ''#FF0000'', stroke_opacity = 1, stroke_weight = 3,
      data = [\<lparr>lat = 0, lng = 0\<rparr>, \<lparr>lat = 10, lng = 20\<rparr>],
      data_bounds = [(0, 0), (10, 20)]\<rparr>) \<and>
   Polyline_init [\<lparr>lat = 0, lng = 0\<rparr>, \<lparr>lat = 10, lng = 20\<rparr>] True ''#FF0000'' (3 / 2) 2 =
     Inl TraitError \<and>
   Polyline_init [\<lparr>lat = 0, lng = 0\<rparr>, \<lparr>lat = 10, lng = 20\<rparr>] True ''#FF0000'' 1 7 =
     Inl TraitError"
  using style_ranges_enforced
    [of "3 / 2"
        "\<lparr>geodesic = True, stroke_color = ''#FF0000'', stroke_opacity = 1, stroke_weight = 2,
          data = [\<lparr>lat = 0, lng = 0\<rparr>, \<lparr>lat = 10, lng = 20\<rparr>],
          data_bounds = [(0, 0), (10, 20)]\<rparr>"
        "[\<lparr>lat = 0, lng = 0\<rparr>, \<lparr>lat = 10, lng = 20\<rparr>]" True "''#FF0000''" 2 3 1]
    style_ranges_enforced
    [of "1 / 2"
        "\<lparr>geodesic = True, stroke_color = ''#FF0000'', stroke_opacity = 1, stroke_weight = 2,
          data = [\<lparr>lat = 0, lng = 0\<rparr>, \<lparr>lat = 10, lng = 20\<rparr>],
          data_bounds = [(0, 0), (10, 20)]\<rparr>"
        "[\<lparr>lat = 0, lng = 0\<rparr>, \<lparr>lat = 10, lng = 20\<rparr>]" True "''#FF0000''" 2 7 1]
  by simp

subsection \<open>C9: the bounds do not depend on the order of the points\<close>

text \<open>
  Claim C9. \<open>data_bounds\<close> is invariant under permutation of the committed
  sequence: for every valid sequence \<open>P\<close> and every reordering \<open>Q\<close> of it (the same
  points with the same multiplicities), committing \<open>P\<close> and committing \<open>Q\<close> both
  succeed and yield the same \<open>data_bounds\<close>.
\<close>

theorem bounds_permutation_invariant:
  assumes "2 \<le> length P"
    and "\<forall>p\<in>set P. - 90 \<le> lat p \<and> lat p \<le> 90 \<and> - 180 \<le> lng p \<and> lng p \<le> 180"
    and "mset Q = mset P"
    and "bounds_in_sync e" and "bounds_in_sync e'"
  shows "fst (set_data P e) = None \<and> fst (set_data Q e') = None \<and>
         data_bounds (snd (set_data Q e')) = data_bounds (snd (set_data P e))"
proof -
  from assms(3) have s: "set Q = set P" by (rule mset_eq_setD)
  from assms(3) have l: "length Q = length P" by (rule mset_eq_length)
  from assms(2) have v: "\<forall>p\<in>set P. is_valid_point (lat p, lng p)"
    by (simp add: in_range_valid)
  from v s have vq: "\<forall>p\<in>set Q. is_valid_point (lat p, lng p)" by simp
  from assms(1) l have lq: "2 \<le> length Q" by simp
  from set_data_accepts[OF assms(1) v assms(4)] set_data_accepts[OF lq vq assms(5)] s
  show ?thesis by simp
qed

theorem bounds_permutation_invariant_witness:
  "data_bounds (snd (set_data [\<lparr>lat = 2, lng = 5\<rparr>, \<lparr>lat = 1, lng = 8\<rparr>, \<lparr>lat = 3, lng = 2\<rparr>]
     \<lparr>geodesic = True, stroke_color = ''#FF0000'', stroke_opacity = 1, stroke_weight = 2,
      data = [\<lparr>lat = 0, lng = 0\<rparr>, \<lparr>lat = 10, lng = 20\<rparr>],
      data_bounds = [(0, 0), (10, 20)]\<rparr>)) =
   data_bounds (snd (set_data [\<lparr>lat = 1, lng = 8\<rparr>, \<lparr>lat = 3, lng = 2\<rparr>, \<lparr>lat = 2, lng = 5\<rparr>]
     \<lparr>geodesic = True, stroke_color = ''#FF0000'', stroke_opacity = 1, stroke_weight = 2,
      data = [\<lparr>lat = 0, lng = 0\<rparr>, \<lparr>lat = 10, lng = 20\<rparr>],
      data_bounds = [(0, 0), (10, 20)]\<rparr>))"
proof -
  let ?P = "[\<lparr>lat = 1, lng = 8\<rparr>, \<lparr>lat = 3, lng = 2\<rparr>, \<lparr>lat = 2, lng = 5\<rparr>]"
  let ?Q = "[\<lparr>lat = 2, lng = 5\<rparr>, \<lparr>lat = 1, lng = 8\<rparr>, \<lparr>lat = 3, lng = 2\<rparr>]"
  let ?e = "\<lparr>geodesic = True, stroke_color = ''#FF0000'', stroke_opacity = 1,
             stroke_weight = 2, data = [\<lparr>lat = 0, lng = 0\<rparr>, \<lparr>lat = 10, lng = 20\<rparr>],
             data_bounds = [(0, 0), (10, 20)]\<rparr>"
  have len: "2 \<le> length ?P" by simp
  have rng: "\<forall>p\<in>set ?P. - 90 \<le> lat p \<and> lat p \<le> 90 \<and> - 180 \<le> lng p \<and> lng p \<le> 180"
    by simp
  have perm: "mset ?Q = mset ?P" by simp
  have sync: "bounds_in_sync ?e"
    by (simp add: bounds_in_sync_def calc_bounds_def py_min_def py_max_def)
  from bounds_permutation_invariant[OF len rng perm sync sync] show ?thesis by simp
qed

subsection \<open>C10: the bounds are ordered, attained and in range\<close>

text \<open>
  Claim C10. After every successful assignment of \<open>data\<close> (and after every
  successful construction) \<open>data_bounds\<close> is a list of two pairs in which the first
  pair is componentwise at most the second: its latitude is at most the second
  latitude and its longitude at most the second longitude. Each of the four components
  is the latitude, respectively the longitude, of some point of the committed sequence;
  and since a successful assignment has only points in range, both corners lie in
  [-90, 90] by [-180, 180].
\<close>

theorem bounds_ordered_and_attained:
  assumes "(bounds_in_sync e \<and> set_data P e = (None, e')) \<or>
           Polyline_init P g c opacity weight = Inr e'"
  shows "\<exists>lo_lat lo_lng hi_lat hi_lng.
           data_bounds e' = [(lo_lat, lo_lng), (hi_lat, hi_lng)] \<and>
           lo_lat \<le> hi_lat \<and> lo_lng \<le> hi_lng \<and>
           lo_lat \<in> lat ` set (data e') \<and> hi_lat \<in> lat ` set (data e') \<and>
           lo_lng \<in> lng ` set (data e') \<and> hi_lng \<in> lng ` set (data e') \<and>
           - 90 \<le> lo_lat \<and> hi_lat \<le> 90 \<and> - 180 \<le> lo_lng \<and> hi_lng \<le> 180 \<and>
           data e' = P"
proof -
  let ?B = "[(Min (lat ` set P), Min (lng ` set P)), (Max (lat ` set P), Max (lng ` set P))]"
  have facts: "2 \<le> length P \<and> (\<forall>p\<in>set P. is_valid_point (lat p, lng p)) \<and>
               data_bounds e' = ?B \<and> data e' = P"
    using assms
  proof
    assume a: "bounds_in_sync e \<and> set_data P e = (None, e')"
    from set_data_None[of P e e'] a
    have lv: "2 \<le> length P" "\<forall>p\<in>set P. is_valid_point (lat p, lng p)" by simp_all
    from set_data_accepts[OF lv] a show ?thesis using lv by auto
  next
    assume "Polyline_init P g c opacity weight = Inr e'"
    from Polyline_init_Inr[OF this] show ?thesis by simp
  qed
  then have ne: "set P \<noteq> {}" by auto
  have fin: "finite (lat ` set P)" "finite (lng ` set P)" by simp_all
  from ne have ne': "lat ` set P \<noteq> {}" "lng ` set P \<noteq> {}" by simp_all
  have m1: "Min (lat ` set P) \<in> lat ` set P" using fin(1) ne'(1) by (rule Min_in)
  have m2: "Min (lng ` set P) \<in> lng ` set P" using fin(2) ne'(2) by (rule Min_in)
  have m3: "Max (lat ` set P) \<in> lat ` set P" using fin(1) ne'(1) by (rule Max_in)
  have m4: "Max (lng ` set P) \<in> lng ` set P" using fin(2) ne'(2) by (rule Max_in)
  have o1: "Min (lat ` set P) \<le> Max (lat ` set P)" using fin(1) m1 by (rule Max_ge)
  have o2: "Min (lng ` set P) \<le> Max (lng ` set P)" using fin(2) m2 by (rule Max_ge)
  from facts have r: "\<And>x. x \<in> lat ` set P \<Longrightarrow> - 90 \<le> x \<and> x \<le> 90"
      "\<And>y. y \<in> lng ` set P \<Longrightarrow> - 180 \<le> y \<and> y \<le> 180"
    by (auto simp: is_valid_point_def)
  from facts have d: "data e' = P" by simp
  from r(1)[OF m1] r(1)[OF m3] r(2)[OF m2] r(2)[OF m4] m1 m2 m3 m4 o1 o2 facts
  show ?thesis unfolding d by blast
qed

theorem bounds_ordered_and_attained_witness:
  "\<exists>lo_lat lo_lng hi_lat hi_lng.
     data_bounds
       \<lparr>geodesic = True, stroke_color = ''#FF0000'', stroke_opacity = 1, stroke_weight = 2,
        data = [\<lparr>lat = 1, lng = 8\<rparr>, \<lparr>lat = 3, lng = 2\<rparr>, \<lparr>lat = 2, lng = 5\<rparr>],
        data_bounds = [(1, 2), (3, 8)]\<rparr> = [(lo_lat, lo_lng), (hi_lat, hi_lng)] \<and>
     lo_lat \<le> hi_lat \<and> lo_lng \<le> hi_lng \<and>
     lo_lat \<in> {1, 3, 2} \<and> hi_lat \<in> {1, 3, 2} \<and> lo_lng \<in> {8, 2, 5} \<and> hi_lng \<in> {8, 2, 5} \<and>
     - 90 \<le> lo_lat \<and> hi_lat \<le> 90 \<and> - 180 \<le> lo_lng \<and> hi_lng \<le> 180"
proof -
  let ?P = "[\<lparr>lat = 1, lng = 8\<rparr>, \<lparr>lat = 3, lng = 2\<rparr>, \<lparr>lat = 2, lng = 5\<rparr>]"
  let ?e = "\<lparr>geodesic = True, stroke_color = ''#FF0000'', stroke_opacity = 1,
             stroke_weight = 2, data = [\<lparr>lat = 0, lng = 0\<rparr>, \<lparr>lat = 10, lng = 20\<rparr>],
             data_bounds = [(0, 0), (10, 20)]\<rparr>"
  let ?e' = "\<lparr>geodesic = True, stroke_color = ''#FF0000'', stroke_opacity = 1,
              stroke_weight = 2, data = ?P, data_bounds = [(1, 2), (3, 8)]\<rparr>"
  have sync: "bounds_in_sync ?e"
    by (simp add: bounds_in_sync_def calc_bounds_def py_min_def py_max_def)
  have run: "set_data ?P ?e = (None, ?e')"
    by (simp add: set_data_def List_validate_def validate_data_def is_valid_point_def
        calc_bounds_def py_min_def py_max_def)
  from sync run have h: "(bounds_in_sync ?e \<and> set_data ?P ?e = (None, ?e')) \<or>
      Polyline_init ?P True ''#FF0000'' 1 2 = Inr ?e'"
    by simp
  from bounds_ordered_and_attained[OF h] show ?thesis by simp
qed

end
